theory Spec2Isabelle
  imports Complex_Main "HOL-Library.Sublist" "HOL-Library.Multiset"
begin

section \<open>tgo: event aggregation and presentation of \<^verbatim>\<open>go test -json\<close> output\<close>

text \<open>
  A shallow embedding of \<^verbatim>\<open>src/tgo.go\<close>. Go strings are byte sequences and so are
  HOL strings (\<^typ>\<open>char list\<close>, one \<^typ>\<open>char\<close> per byte). Every function keeps the
  name it has in the source; line numbers refer to \<^verbatim>\<open>src/tgo.go\<close>.
\<close>

subsection \<open>Functions of Go's standard library used by the program\<close>

abbreviation NL :: string where "NL \<equiv> [CHR 0x0A]"
abbreviation TAB :: string where "TAB \<equiv> [CHR 0x09]"

text \<open>\<^verbatim>\<open>strings.HasPrefix\<close>, \<^verbatim>\<open>strings.HasSuffix\<close>, \<^verbatim>\<open>strings.TrimPrefix\<close>,
  \<^verbatim>\<open>strings.TrimSuffix\<close>.\<close>

definition HasPrefix :: "string \<Rightarrow> string \<Rightarrow> bool" where
  "HasPrefix s p = (take (length p) s = p)"

definition HasSuffix :: "string \<Rightarrow> string \<Rightarrow> bool" where
  "HasSuffix s p = (length p \<le> length s \<and> drop (length s - length p) s = p)"

definition TrimPrefix :: "string \<Rightarrow> string \<Rightarrow> string" where
  "TrimPrefix s p = (if HasPrefix s p then drop (length p) s else s)"

definition TrimSuffix :: "string \<Rightarrow> string \<Rightarrow> string" where
  "TrimSuffix s p = (if HasSuffix s p then take (length s - length p) s else s)"

text \<open>\<^verbatim>\<open>strings.TrimLeft(s, " ")\<close>: the cutset is the single space.\<close>

definition TrimLeft_space :: "string \<Rightarrow> string" where
  "TrimLeft_space s = dropWhile (\<lambda>c. c = CHR '' '') s"

text \<open>
  \<^verbatim>\<open>strings.TrimSpace\<close> removes leading and trailing white space as \<^verbatim>\<open>unicode.IsSpace\<close>
  defines it: the six ASCII characters tab, line feed, vertical tab, form feed, carriage
  return and space, and the runes U+0085, U+00A0, U+1680, U+2000 to U+200A, U+2028,
  U+2029, U+202F, U+205F and U+3000, which are two or three bytes in UTF-8. A byte
  sequence that is no valid encoding decodes to the replacement rune, which is no space.
\<close>

definition space1 :: "char \<Rightarrow> bool" where
  "space1 a = (a = CHR 0x09 \<or> a = CHR 0x0A \<or> a = CHR 0x0B \<or> a = CHR 0x0C \<or>
     a = CHR 0x0D \<or> a = CHR 0x20)"

definition space2 :: "char \<Rightarrow> char \<Rightarrow> bool" where
  "space2 a b = (a = CHR 0xC2 \<and> (b = CHR 0x85 \<or> b = CHR 0xA0))"

definition space3 :: "char \<Rightarrow> char \<Rightarrow> char \<Rightarrow> bool" where
  "space3 a b c =
     ((a = CHR 0xE1 \<and> b = CHR 0x9A \<and> c = CHR 0x80) \<or>
      (a = CHR 0xE2 \<and> b = CHR 0x80 \<and>
         ((0x80 \<le> (of_char c :: nat) \<and> (of_char c :: nat) \<le> 0x8A) \<or>
          c = CHR 0xA8 \<or> c = CHR 0xA9 \<or> c = CHR 0xAF)) \<or>
      (a = CHR 0xE2 \<and> b = CHR 0x81 \<and> c = CHR 0x9F) \<or>
      (a = CHR 0xE3 \<and> b = CHR 0x80 \<and> c = CHR 0x80))"

fun TrimLeftSpace :: "string \<Rightarrow> string" where
  "TrimLeftSpace (a # b # c # s) =
     (if space1 a then TrimLeftSpace (b # c # s)
      else if space2 a b then TrimLeftSpace (c # s)
      else if space3 a b c then TrimLeftSpace s
      else a # b # c # s)"
| "TrimLeftSpace [a, b] =
     (if space1 a then TrimLeftSpace [b]
      else if space2 a b then []
      else [a, b])"
| "TrimLeftSpace [a] = (if space1 a then [] else [a])"
| "TrimLeftSpace [] = []"

text \<open>The same scan from the end, on the reversed string: the last rune is read backwards.\<close>

fun TrimRightSpace_rev :: "string \<Rightarrow> string" where
  "TrimRightSpace_rev (c # b # a # s) =
     (if space1 c then TrimRightSpace_rev (b # a # s)
      else if space2 b c then TrimRightSpace_rev (a # s)
      else if space3 a b c then TrimRightSpace_rev s
      else c # b # a # s)"
| "TrimRightSpace_rev [c, b] =
     (if space1 c then TrimRightSpace_rev [b]
      else if space2 b c then []
      else [c, b])"
| "TrimRightSpace_rev [c] = (if space1 c then [] else [c])"
| "TrimRightSpace_rev [] = []"

definition TrimRightSpace :: "string \<Rightarrow> string" where
  "TrimRightSpace s = rev (TrimRightSpace_rev (rev s))"

definition TrimSpace :: "string \<Rightarrow> string" where
  "TrimSpace s = TrimRightSpace (TrimLeftSpace s)"

text \<open>\<^verbatim>\<open>slices.Contains\<close> is list membership; \<^verbatim>\<open>strings.Contains\<close> is the search for a
  contiguous block of bytes.\<close>

fun Contains :: "string \<Rightarrow> string \<Rightarrow> bool" where
  "Contains [] sub = (sub = [])"
| "Contains (c # s) sub = (HasPrefix (c # s) sub \<or> Contains s sub)"

text \<open>Decimal digits of a natural number: \<^verbatim>\<open>%v\<close> and \<^verbatim>\<open>%d\<close> of a non-negative integer.\<close>

definition digit_char :: "nat \<Rightarrow> char" where
  "digit_char d = ''0123456789'' ! d"

fun Itoa :: "nat \<Rightarrow> string" where
  "Itoa n = (if n < 10 then [digit_char n] else Itoa (n div 10) @ [digit_char (n mod 10)])"

declare Itoa.simps [simp del]

text \<open>
  \<^verbatim>\<open>fmt.Sprintf("%.2f", x)\<close> for a finite \<^verbatim>\<open>float64\<close>: the value rounded to two decimals,
  ties to the even neighbour, with a minus sign for a negative value. \<^verbatim>\<open>Elapsed\<close> is
  decoded from JSON, which has neither NaN nor infinities, so the field is modelled by the
  real number the float stands for. The reals have one zero: a negative zero, which the
  library prints as \<^verbatim>\<open>-0.00\<close>, is printed as \<^verbatim>\<open>0.00\<close> here. No statement below depends
  on the text of a negative zero.
\<close>

definition round_half_even :: "real \<Rightarrow> int" where
  "round_half_even x =
     (let f = \<lfloor>x\<rfloor>; r = x - of_int f
      in if r < 1 / 2 then f else if 1 / 2 < r then f + 1 else if even f then f else f + 1)"

definition Sprintf_2f :: "real \<Rightarrow> string" where
  "Sprintf_2f x =
     (let n = nat (round_half_even (\<bar>x\<bar> * 100))
      in (if x < 0 then ''-'' else '''') @ Itoa (n div 100) @ ''.'' @
         [digit_char ((n mod 100) div 10), digit_char (n mod 10)])"

text \<open>
  \<^verbatim>\<open>%6s\<close> and \<^verbatim>\<open>%7s\<close>: right-justified in a field of so many runes. The strings the
  program formats are decoded from JSON or constants, hence valid UTF-8, where the runes
  are the bytes that are no continuation bytes.
\<close>

definition RuneCount :: "string \<Rightarrow> nat" where
  "RuneCount s = length (filter (\<lambda>c. \<not> (0x80 \<le> (of_char c :: nat) \<and> (of_char c :: nat) < 0xC0)) s)"

definition Sprintf_pad :: "nat \<Rightarrow> string \<Rightarrow> string" where
  "Sprintf_pad n s = replicate (n - RuneCount s) CHR '' '' @ s"

text \<open>Comparison of two strings with \<^verbatim>\<open><\<close>: byte by byte.\<close>

fun bytes_less :: "string \<Rightarrow> string \<Rightarrow> bool" where
  "bytes_less [] [] = False"
| "bytes_less [] (y # ys) = True"
| "bytes_less (x # xs) [] = False"
| "bytes_less (x # xs) (y # ys) =
     (if x = y then bytes_less xs ys else (of_char x :: nat) < of_char y)"

text \<open>
  \<^verbatim>\<open>sort.SliceStable\<close>: an insertion sort on blocks of twenty elements, followed by
  in-place merges of the blocks. For a slice of at most twenty elements it is one
  insertion sort: element \<open>i\<close> is swapped towards the front while it is less than its left
  neighbour. \<open>sift\<close> is that inner loop on the reversed prefix already sorted. For a
  comparison that is a strict weak order every stable sort returns the same slice, so the
  definition is the library's result there for every length. For a comparison that is no
  such order and a slice of more than twenty elements, the merges of the library may
  return another arrangement of the same elements than this definition; below, the order of
  a result is evaluated on slices of at most four elements only, and every other
  statement uses no more than the elements of the result.
\<close>

fun sift :: "('a \<Rightarrow> 'a \<Rightarrow> bool) \<Rightarrow> 'a \<Rightarrow> 'a list \<Rightarrow> 'a list" where
  "sift lt x [] = [x]"
| "sift lt x (y # ys) = (if lt x y then y # sift lt x ys else x # y # ys)"

definition SliceStable :: "('a \<Rightarrow> 'a \<Rightarrow> bool) \<Rightarrow> 'a list \<Rightarrow> 'a list" where
  "SliceStable lt xs = rev (foldl (\<lambda>acc x. sift lt x acc) [] xs)"

subsection \<open>Actions, statuses, events and keys (lines 29 to 375)\<close>

text \<open>
  \<^verbatim>\<open>Action\<close> is a string type and an event decoded from JSON may carry any string, so
  an action is a string. \<^verbatim>\<open>Status\<close> is a string type too, but every value the program
  builds is one of the five named ones: \<^verbatim>\<open>Events.Status\<close> returns them, and
  \<^verbatim>\<open>Statuses.Set\<close> refuses any other string. \<open>Status_String\<close> is the underlying string.
\<close>

type_synonym Action = string

abbreviation ActionRun :: Action where "ActionRun \<equiv> ''run''"
abbreviation ActionPause :: Action where "ActionPause \<equiv> ''pause''"
abbreviation ActionCont :: Action where "ActionCont \<equiv> ''cont''"
abbreviation ActionPass :: Action where "ActionPass \<equiv> ''pass''"
abbreviation ActionBench :: Action where "ActionBench \<equiv> ''bench''"
abbreviation ActionFail :: Action where "ActionFail \<equiv> ''fail''"
abbreviation ActionOutput :: Action where "ActionOutput \<equiv> ''output''"
abbreviation ActionSkip :: Action where "ActionSkip \<equiv> ''skip''"

definition EndingActions :: "Action list" where
  "EndingActions = [ActionFail, ActionSkip, ActionPass, ActionBench]"

datatype Status = StatusPass | StatusFail | StatusSkip | StatusBench | StatusNone

fun Status_String :: "Status \<Rightarrow> string" where
  "Status_String StatusPass = ActionPass"
| "Status_String StatusFail = ActionFail"
| "Status_String StatusSkip = ActionSkip"
| "Status_String StatusBench = ActionBench"
| "Status_String StatusNone = ''none''"

fun statusNames :: "Status \<Rightarrow> string" where
  "statusNames StatusFail = ''FAIL''"
| "statusNames StatusPass = ''PASS''"
| "statusNames StatusNone = ''NONE''"
| "statusNames StatusSkip = ''SKIP''"
| "statusNames StatusBench = ''BENCH''"

text \<open>\<^verbatim>\<open>Status.IsAction\<close> (lines 249 to 266).\<close>

definition IsAction :: "Status \<Rightarrow> Action \<Rightarrow> bool" where
  "IsAction s a =
     (if a = ActionBench then s = StatusBench
      else if a = ActionPass then s = StatusPass
      else if a = ActionFail then s = StatusFail
      else if a = ActionSkip then s = StatusSkip
      else False)"

type_synonym Statuses = "Status list"

text \<open>\<^verbatim>\<open>Statuses.Any\<close> and \<^verbatim>\<open>Statuses.HasAction\<close> (lines 274 to 290).\<close>

definition Any :: "Statuses \<Rightarrow> Status list \<Rightarrow> bool" where
  "Any ss statuses = list_ex (\<lambda>s. s \<in> set statuses) ss"

definition HasAction :: "Statuses \<Rightarrow> Action \<Rightarrow> bool" where
  "HasAction ss action = list_ex (\<lambda>s. IsAction s action) ss"

text \<open>The fields of \<^verbatim>\<open>Flags\<close> that the core reads. A verbosity is an \<^verbatim>\<open>int\<close>.\<close>

record Flags =
  V :: int
  Results :: Statuses
  HideEmptyResults :: Statuses
  Summary :: Statuses

abbreviation V3 :: int where "V3 \<equiv> 3"

text \<open>
  An event (lines 338 to 345). \<open>Time\<close> is the instant of the time stamp, in nanoseconds;
  \<^verbatim>\<open>Time.Before\<close> compares instants.
\<close>

record Event =
  Time :: int
  Action :: Action
  Package :: string
  Test :: string
  Elapsed :: real
  Output :: string

datatype Key = Key (Key_Package: string) (Key_Test: string)

definition Event_Key :: "Event \<Rightarrow> Key" where
  "Event_Key t = Key (Package t) (Test t)"

definition Key_String :: "Key \<Rightarrow> string" where
  "Key_String t = (if Key_Test t = '''' then Key_Package t else Key_Package t @ ''.'' @ Key_Test t)"

type_synonym Events = "Event list"

subsection \<open>Operations on the events of one unit (lines 377 to 498)\<close>

fun Events_Status :: "Events \<Rightarrow> Status" where
  "Events_Status [] = StatusNone"
| "Events_Status (e # es) =
     (if Action e = ActionFail then StatusFail
      else if Action e = ActionPass then StatusPass
      else if Action e = ActionSkip then StatusSkip
      else if Action e = ActionBench then StatusBench
      else Events_Status es)"

definition FindFirstByAction :: "Events \<Rightarrow> Action list \<Rightarrow> Event option" where
  "FindFirstByAction es actions = find (\<lambda>v. Action v \<in> set actions) es"

text \<open>\<^verbatim>\<open>SortByTime\<close> (lines 406 to 410).\<close>

definition SortByTime :: "Events \<Rightarrow> Events" where
  "SortByTime es = SliceStable (\<lambda>a b. Time a < Time b) es"

text \<open>
  \<^verbatim>\<open>Compact\<close> (lines 413 to 462). \<open>elapsedAt\<close> is one of the three lookups at its start:
  the elapsed time of the first event of the action, zero when there is none.
  \<open>uninteresting\<close> is the condition of the \<^verbatim>\<open>if\<close> in the loop, under which the event is
  skipped.
\<close>

definition elapsedAt :: "Events \<Rightarrow> Action \<Rightarrow> real" where
  "elapsedAt es a = (case FindFirstByAction es [a] of None \<Rightarrow> 0 | Some e \<Rightarrow> Elapsed e)"

definition uninteresting :: "real \<Rightarrow> real \<Rightarrow> real \<Rightarrow> Event \<Rightarrow> bool" where
  "uninteresting failedAt skippedAt passedAt e =
     (let output = TrimLeft_space (Output e); outputWS = TrimSpace (Output e)
      in Action e = ''run'' \<or>
         Action e = ''cont'' \<or>
         Action e = ''pause'' \<or>
         (Action e = ''output'' \<and> Test e \<noteq> '''' \<and>
            (output = ''=== RUN   '' @ Test e @ NL \<or>
             output = ''=== CONT  '' @ Test e @ NL \<or>
             output = ''=== PAUSE '' @ Test e @ NL \<or>
             output = ''--- FAIL: '' @ Test e @ '' ('' @ Sprintf_2f failedAt @ ''s)'' @ NL \<or>
             output = ''--- SKIP: '' @ Test e @ '' ('' @ Sprintf_2f skippedAt @ ''s)'' @ NL \<or>
             output = ''--- PASS: '' @ Test e @ '' ('' @ Sprintf_2f passedAt @ ''s)'' @ NL)) \<or>
         (Action e = ''output'' \<and> Package e \<noteq> '''' \<and> Test e = '''' \<and>
            (HasPrefix output (''ok  '' @ TAB @ Package e) \<or>
             HasSuffix output (''[no test files]'' @ NL) \<or>
             output = ''ok   '' @ Package e @ NL \<or>
             output = ''PASS'' @ NL \<or>
             output = ''FAIL'' @ NL \<or>
             output = ''testing: warning: no tests to run'' @ NL \<or>
             HasPrefix outputWS (''FAIL'' @ TAB @ Package e @ TAB) \<or>
             (HasPrefix outputWS ''coverage:'' \<and> HasSuffix outputWS ''of statements''))))"

definition Compact :: "Events \<Rightarrow> Events" where
  "Compact es =
     (let passedAt = elapsedAt es ActionPass;
          failedAt = elapsedAt es ActionFail;
          skippedAt = elapsedAt es ActionSkip
      in filter (\<lambda>e. \<not> uninteresting failedAt skippedAt passedAt e) es)"

text \<open>\<^verbatim>\<open>IsPackageWithoutTest\<close> (lines 464 to 476).\<close>

definition IsPackageWithoutTest :: "Events \<Rightarrow> bool" where
  "IsPackageWithoutTest es =
     list_ex (\<lambda>e. Action e = ''output'' \<and> Package e \<noteq> '''' \<and> Test e = '''' \<and>
                  HasSuffix (TrimLeft_space (Output e)) (''[no test files]'' @ NL)) es"

text \<open>
  \<^verbatim>\<open>FindCoverage\<close> (lines 478 to 498). \<open>isCoverageLine\<close> is the test of line 490 on the
  trimmed output, \<open>coverageOf\<close> the three lines that cut the percentage out of it.
\<close>

definition isCoverageLine :: "string \<Rightarrow> bool" where
  "isCoverageLine output = (HasPrefix output ''coverage: '' \<and> HasSuffix output '' of statements'')"

definition coverageOf :: "string \<Rightarrow> string" where
  "coverageOf output = TrimSpace (TrimSuffix (TrimPrefix output ''coverage:'') ''of statements'')"

fun FindCoverage_loop :: "Events \<Rightarrow> string" where
  "FindCoverage_loop [] = ''''"
| "FindCoverage_loop (event # es) =
     (if Action event \<noteq> ActionOutput then FindCoverage_loop es
      else if isCoverageLine (TrimSpace (Output event)) then coverageOf (TrimSpace (Output event))
      else FindCoverage_loop es)"

definition FindCoverage :: "Events \<Rightarrow> string" where
  "FindCoverage es =
     (case es of
        [] \<Rightarrow> ''''
      | e0 # _ \<Rightarrow> if Package e0 = '''' \<or> Test e0 \<noteq> '''' then '''' else FindCoverage_loop es)"

subsection \<open>The natural order of strings\<close>

text \<open>
  \<^verbatim>\<open>natural.Less\<close> of the dependency \<^verbatim>\<open>github.com/maruel/natural\<close>: the common prefix
  without digits is dropped; where both strings go on with digits, the two numbers are
  compared when they fit 64 bits and differ, and the comparison goes on behind them when
  they are equal and both strings have more; everything else is the comparison of the
  bytes.
\<close>

definition isDigit :: "char \<Rightarrow> bool" where
  "isDigit c = (48 \<le> (of_char c :: nat) \<and> (of_char c :: nat) \<le> 57)"

fun commonPrefix :: "string \<Rightarrow> string \<Rightarrow> nat" where
  "commonPrefix (ca # a) (cb # b) =
     (if isDigit ca \<or> isDigit cb \<or> ca \<noteq> cb then 0 else Suc (commonPrefix a b))"
| "commonPrefix [] b = 0"
| "commonPrefix a [] = 0"

fun digits :: "string \<Rightarrow> nat" where
  "digits [] = 0"
| "digits (c # s) = (if isDigit c then Suc (digits s) else 0)"

definition decimal :: "string \<Rightarrow> nat" where
  "decimal s = foldl (\<lambda>n c. 10 * n + (of_char c - 48)) 0 s"

definition ParseUint :: "string \<Rightarrow> nat option" where
  "ParseUint s = (if decimal s < 2 ^ 64 then Some (decimal s) else None)"

function natural_Less :: "string \<Rightarrow> string \<Rightarrow> bool" where
  "natural_Less a0 b0 =
     (let p = commonPrefix a0 b0; a = drop p a0; b = drop p b0
      in if a = [] then b \<noteq> []
         else if 0 < digits a \<and> 0 < digits b \<and>
                 ParseUint (take (digits a) a) \<noteq> None \<and> ParseUint (take (digits b) b) \<noteq> None
         then
           if ParseUint (take (digits a) a) \<noteq> ParseUint (take (digits b) b)
           then the (ParseUint (take (digits a) a)) < the (ParseUint (take (digits b) b))
           else if digits a \<noteq> length a \<and> digits b \<noteq> length b
           then natural_Less (drop (digits a) a) (drop (digits b) b)
           else bytes_less a b
         else bytes_less a b)"
  by pat_completeness auto
termination
  by (relation "measure (\<lambda>(a, b). length a)") auto

declare natural_Less.simps [simp del]

subsection \<open>The store of units (lines 600 to 739)\<close>

text \<open>
  \<^verbatim>\<open>TestStorage\<close> is a Go map from keys to event sequences. It is modelled by the list of
  its entries, with distinct keys, in the order in which a \<^verbatim>\<open>range\<close> loop visits them.
  Go leaves that order open and changes it from one loop to the next, so a list stands for
  one possible visit, every list with the same entries for another.
\<close>

type_synonym TestStorage = "(Key \<times> Events) list"

text \<open>The read \<^verbatim>\<open>ts[key]\<close>, a nil slice for an absent key, and the write \<^verbatim>\<open>ts[key] = v\<close>.\<close>

definition lookup :: "TestStorage \<Rightarrow> Key \<Rightarrow> Events" where
  "lookup ts key = (case map_of ts key of None \<Rightarrow> [] | Some events \<Rightarrow> events)"

fun assign :: "TestStorage \<Rightarrow> Key \<Rightarrow> Events \<Rightarrow> TestStorage" where
  "assign [] key v = [(key, v)]"
| "assign ((k, w) # ts) key v = (if k = key then (k, v) # ts else (k, w) # assign ts key v)"

text \<open>
  The comparison that \<^verbatim>\<open>OrderedKeys\<close> hands to the sort (lines 607 to 613), and
  \<^verbatim>\<open>OrderedKeys\<close> (lines 602 to 616).
\<close>

definition Key_less :: "Key \<Rightarrow> Key \<Rightarrow> bool" where
  "Key_less ki kj =
     (if Key_Package ki = Key_Package kj \<and> (Key_Test ki = '''' \<or> Key_Test kj = '''')
      then length (Key_Test ki) > length (Key_Test kj)
      else natural_Less (Key_String ki) (Key_String kj))"

definition OrderedKeys :: "TestStorage \<Rightarrow> Key list" where
  "OrderedKeys ts = SliceStable Key_less (map fst ts)"

definition Append :: "TestStorage \<Rightarrow> Event \<Rightarrow> TestStorage" where
  "Append ts e = (let key = Event_Key e; events = lookup ts key in assign ts key (events @ [e]))"

definition FilterPackageResults :: "TestStorage \<Rightarrow> TestStorage" where
  "FilterPackageResults ts = filter (\<lambda>(key, events). Key_Test key \<noteq> '''') ts"

definition FindPackageResults :: "TestStorage \<Rightarrow> TestStorage" where
  "FindPackageResults ts = filter (\<lambda>(key, events). Key_Test key = '''') ts"

definition FilterKeys :: "TestStorage \<Rightarrow> (Key \<Rightarrow> bool) \<Rightarrow> TestStorage" where
  "FilterKeys ts exclude = filter (\<lambda>(key, events). \<not> exclude key) ts"

definition FindPackageTests :: "TestStorage \<Rightarrow> string \<Rightarrow> TestStorage" where
  "FindPackageTests ts name = filter (\<lambda>(key, events). name = Key_Package key) ts"

definition FindByAction :: "TestStorage \<Rightarrow> Action \<Rightarrow> TestStorage" where
  "FindByAction ts action = filter (\<lambda>(key, events). list_ex (\<lambda>e. Action e = action) events) ts"

definition FilterAction :: "TestStorage \<Rightarrow> Action list \<Rightarrow> TestStorage" where
  "FilterAction ts actions =
     filter (\<lambda>(key, events). \<not> list_ex (\<lambda>e. Action e \<in> set actions) events) ts"

definition WithCoverage :: "TestStorage \<Rightarrow> TestStorage" where
  "WithCoverage ts =
     filter (\<lambda>(key, events). \<not> (Key_Test key \<noteq> '''' \<or> Key_Package key = '''') \<and>
                              FindCoverage events \<noteq> '''') ts"

definition FilterNotests :: "TestStorage \<Rightarrow> TestStorage" where
  "FilterNotests ts = filter (\<lambda>(key, events). \<not> IsPackageWithoutTest events) ts"

definition CountTests :: "TestStorage \<Rightarrow> nat" where
  "CountTests ts = length (FilterPackageResults ts)"

subsection \<open>Printing (lines 86 to 123, 500 to 598 and 741 to 825)\<close>

text \<open>
  The colour functions of lines 86 to 106 come from \<^verbatim>\<open>github.com/fatih/color\<close>: each
  wraps a text into the escape sequences of its attributes, or returns it as it is when
  colours are off. A colour is a name here, and the rendering \<open>paint\<close> a parameter of
  every printing function; \<open>plain\<close> is the rendering with colours off. What a function
  prints is the list of the texts of its \<^verbatim>\<open>fmt.Print\<close> and \<^verbatim>\<open>fmt.Println\<close> calls, in order.
\<close>

datatype Color =
  defaultColor | lineColor | hardLineColor | packageColor | testColor | testColorBold
| timeColor | coverColor | failColor | failColorBold | noneColor | noneColorBold
| passColor | passColorBold | skipColor | skipColorBold

type_synonym Paint = "Color \<Rightarrow> string \<Rightarrow> string"

definition plain :: Paint where
  "plain c s = s"

fun statusColors :: "Status \<Rightarrow> Color" where
  "statusColors StatusFail = failColor"
| "statusColors StatusPass = passColor"
| "statusColors StatusNone = noneColor"
| "statusColors StatusSkip = skipColor"
| "statusColors StatusBench = passColor"

fun statusColorsBold :: "Status \<Rightarrow> Color" where
  "statusColorsBold StatusFail = failColorBold"
| "statusColorsBold StatusPass = passColorBold"
| "statusColorsBold StatusNone = noneColorBold"
| "statusColorsBold StatusSkip = skipColorBold"
| "statusColorsBold StatusBench = passColorBold"

text \<open>The rule of twelve double horizontal bars (U+2550, three bytes each).\<close>

definition hrule :: string where
  "hrule = concat (replicate 12 [CHR 0xE2, CHR 0x95, CHR 0x90])"

text \<open>
  The elapsed time of a summary line (lines 756 to 759 and 797 to 800), and the two tags
  of a package (lines 765 to 774 and 802 to 810, in the order of each function). The
  constant \<^verbatim>\<open>0.01\<close> is the \<^verbatim>\<open>float64\<close> next to one hundredth, and no \<^verbatim>\<open>float64\<close> lies
  between the two, so the test is the comparison with one hundredth.
\<close>

definition elapsedTag :: "Paint \<Rightarrow> Events \<Rightarrow> string" where
  "elapsedTag paint events =
     (case FindFirstByAction events EndingActions of
        None \<Rightarrow> ''''
      | Some fe \<Rightarrow>
          if Elapsed fe \<ge> 1 / 100
          then ''  '' @ paint timeColor (''('' @ Sprintf_2f (Elapsed fe) @ ''s)'')
          else '''')"

definition noTestsTag :: "Events \<Rightarrow> string" where
  "noTestsTag events = (if IsPackageWithoutTest events then ''  '' @ ''[no tests]'' else '''')"

definition coverageTag :: "Paint \<Rightarrow> Events \<Rightarrow> string" where
  "coverageTag paint events =
     (let coverage = FindCoverage events
      in if length coverage > 0 then ''  '' @ paint coverColor (''{'' @ coverage @ ''}'') else '''')"

text \<open>\<^verbatim>\<open>PrintShortSummary\<close> (lines 741 to 782): \<open>countTag\<close> is lines 761 to 763,
  \<open>PrintShortSummary_line\<close> the body of the loop.\<close>

definition countTag :: "Paint \<Rightarrow> Status \<Rightarrow> TestStorage \<Rightarrow> Key \<Rightarrow> string" where
  "countTag paint status ts key =
     (let count = CountTests (FindPackageTests ts (Key_Package key))
      in ''   '' @ paint (statusColors status) (''<'' @ Itoa count @ '' tests>''))"

definition PrintShortSummary_line :: "Paint \<Rightarrow> Status \<Rightarrow> TestStorage \<Rightarrow> Key \<Rightarrow> string" where
  "PrintShortSummary_line paint status ts key =
     (let events = lookup ts key;
          prefix = paint (statusColors status) (Sprintf_pad 6 (statusNames status) @ '' '');
          sb = elapsedTag paint events @ countTag paint status ts key @
               noTestsTag events @ coverageTag paint events
      in prefix @ paint packageColor (Key_Package key) @ sb @ NL)"

definition PrintShortSummary :: "Paint \<Rightarrow> TestStorage \<Rightarrow> Status \<Rightarrow> string list" where
  "PrintShortSummary paint ts status =
     (let header = paint (statusColorsBold status) (statusNames status);
          hr = paint (statusColors status) hrule;
          tests = FindPackageResults ts
      in (hr @ '' '' @ header @ '' '' @ hr @ NL) #
         map (PrintShortSummary_line paint status ts) (OrderedKeys tests))"

text \<open>\<^verbatim>\<open>PrintSummary\<close> (lines 784 to 825); \<open>PrintSummary_line\<close> is the body of its loop.\<close>

definition PrintSummary_line :: "Paint \<Rightarrow> Status \<Rightarrow> TestStorage \<Rightarrow> Key \<Rightarrow> string" where
  "PrintSummary_line paint status ts key =
     (let events = lookup ts key;
          prefix = paint (statusColors status) (Sprintf_pad 6 (statusNames status) @ '' '');
          sb = elapsedTag paint events
      in if Key_Test key = ''''
         then prefix @ paint packageColor (Key_Package key) @
              (sb @ noTestsTag events @ coverageTag paint events) @ NL
         else prefix @ paint packageColor (Key_Package key) @
              ''.'' @ paint testColor (Key_Test key) @ sb @ NL)"

definition PrintSummary :: "Paint \<Rightarrow> TestStorage \<Rightarrow> Status \<Rightarrow> string list" where
  "PrintSummary paint ts status =
     (let header = paint (statusColors status) (statusNames status);
          hr = paint (statusColors status) hrule
      in (hr @ '' '' @ header @ '' '' @ hr @ NL) #
         map (PrintSummary_line paint status ts) (OrderedKeys ts))"

text \<open>
  \<^verbatim>\<open>PrintDetail\<close> (lines 500 to 598). \<open>PrintDetail_events\<close> is the sequence after the gate
  of lines 504 to 507, \<open>PrintDetail_filteredEvents\<close> the events of lines 512 to 519, which
  are printed one per line in that order (lines 584 to 594); the header is computed from
  the sequence sorted by time. \<^verbatim>\<open>Time.Format\<close> with the layout of line 590 is the
  parameter \<open>clock\<close>.
\<close>

definition PrintDetail_events :: "Flags \<Rightarrow> Events \<Rightarrow> Events" where
  "PrintDetail_events flags es = (if V flags \<le> V3 then Compact es else es)"

definition PrintDetail_filteredEvents :: "Flags \<Rightarrow> Events \<Rightarrow> Events" where
  "PrintDetail_filteredEvents flags es =
     filter (\<lambda>e. \<not> (V flags \<le> V3 \<and> TrimSpace (Output e) = '''')) (PrintDetail_events flags es)"

definition PrintDetail_line :: "Paint \<Rightarrow> (int \<Rightarrow> string) \<Rightarrow> Flags \<Rightarrow> Color \<Rightarrow> Event \<Rightarrow> string" where
  "PrintDetail_line paint clock flags textColor e =
     (if V flags \<ge> V3 then Sprintf_pad 7 (Action e) @ '' '' @ clock (Time e) @ '' '' else '''') @
     paint textColor (TrimSuffix (Output e) NL) @ '' '' @ NL"

definition PrintDetail :: "Paint \<Rightarrow> (int \<Rightarrow> string) \<Rightarrow> Flags \<Rightarrow> Events \<Rightarrow> string list" where
  "PrintDetail paint clock flags es =
     (if length es = 0 then []
      else if length (PrintDetail_events flags es) = 0 then []
      else
        let filteredEvents = PrintDetail_filteredEvents flags es;
            events = SortByTime (PrintDetail_events flags es);
            status = Events_Status events;
            numberEvents = length filteredEvents
        in if numberEvents = 0 \<and> Any (HideEmptyResults flags) [status] then []
           else
             let textColor = (if status = StatusFail then failColor
                              else if status = StatusSkip then skipColor else defaultColor);
                 found = (if status = StatusNone then None
                          else FindFirstByAction events [Status_String status]);
                 event = (case found of None \<Rightarrow> events ! 0 | Some ev \<Rightarrow> ev);
                 testName = (if Test event \<noteq> ''''
                             then ''.'' @ paint (if numberEvents > 0 then testColorBold else testColor)
                                                (Test event)
                             else '''');
                 sb = (if Elapsed event \<ge> 1 / 100
                       then ''  '' @ paint timeColor (''('' @ Sprintf_2f (Elapsed event) @ ''s)'')
                       else '''') @
                      coverageTag paint es @ noTestsTag es
             in [paint (statusColorsBold status) ''==='' @ '' '' @
                 paint (statusColorsBold status) (statusNames status) @ '' '' @
                 paint (statusColors status) (Package event) @ testName @ sb @ NL] @
                (if numberEvents > 0 then [NL] else []) @
                map (PrintDetail_line paint clock flags textColor) filteredEvents @
                (if numberEvents > 0 then [NL] else []))"

subsection \<open>The stream driver and the exit status (lines 907 to 914 and 947 to 1085)\<close>

text \<open>
  The scanning loop (lines 952 to 967). A line of the input is \<open>None\<close> when
  \<^verbatim>\<open>json.Unmarshal\<close> fails on it and the decoded event otherwise. The state is the
  store, the map \<^verbatim>\<open>printed\<close> (absent keys read as false), and the calls of
  \<^verbatim>\<open>PrintDetail\<close> made so far: the key of each with what it printed.
\<close>

record Scan =
  tests :: TestStorage
  printed :: "Key \<Rightarrow> bool"
  details :: "(Key \<times> string list) list"

definition scan_init :: Scan where
  "scan_init = \<lparr>tests = [], printed = (\<lambda>k. False), details = []\<rparr>"

definition scan_step :: "Paint \<Rightarrow> (int \<Rightarrow> string) \<Rightarrow> Flags \<Rightarrow> Scan \<Rightarrow> Event option \<Rightarrow> Scan" where
  "scan_step paint clock flags st line =
     (case line of
        None \<Rightarrow> st
      | Some e \<Rightarrow>
          let ts = Append (tests st) e; key = Event_Key e
          in if \<not> printed st key \<and> HasAction (Results flags) (Action e)
             then \<lparr>tests = ts, printed = (printed st)(key := True),
                   details = details st @ [(key, PrintDetail paint clock flags (lookup ts key))]\<rparr>
             else st\<lparr>tests := ts\<rparr>)"

definition scan :: "Paint \<Rightarrow> (int \<Rightarrow> string) \<Rightarrow> Flags \<Rightarrow> Event option list \<Rightarrow> Scan" where
  "scan paint clock flags input = foldl (scan_step paint clock flags) scan_init input"

text \<open>The pass over the units that never finished and were not printed (lines 970 to 978).\<close>

definition printNoneTests :: "Paint \<Rightarrow> (int \<Rightarrow> string) \<Rightarrow> Flags \<Rightarrow> Scan \<Rightarrow> Scan" where
  "printNoneTests paint clock flags st =
     (if Any (Results flags) [StatusNone]
      then
        let noneTests = FilterAction (FilterKeys (tests st) (printed st)) EndingActions
        in foldl (\<lambda>s key. s\<lparr>printed := (printed s)(key := True),
                               details := details s @
                                 [(key, PrintDetail paint clock flags (lookup (tests s) key))]\<rparr>)
                 st (OrderedKeys noneTests)
      else st)"

text \<open>
  The summaries (lines 981 to 1007): \<open>summaryStore\<close> is the store of lines 992 to 998 that
  the summary of an ending action prints, \<open>printSummary\<close> one round of the loop over the
  requested statuses. The table of coverages and the line of counters, which \<^verbatim>\<open>run\<close>
  prints behind the summaries (lines 1009 to 1066), read the store and change nothing; they
  are left out.
\<close>

definition summaryStore :: "Flags \<Rightarrow> TestStorage \<Rightarrow> Action \<Rightarrow> TestStorage" where
  "summaryStore flags ts action =
     (let filtered = FindByAction ts action
      in if action = ActionSkip \<and> V flags \<le> V3 then FilterNotests filtered else filtered)"

definition printSummary :: "Paint \<Rightarrow> Flags \<Rightarrow> TestStorage \<Rightarrow> Status \<Rightarrow> string list" where
  "printSummary paint flags ts status =
     (if status = StatusNone
      then let filtered = FilterAction ts EndingActions
           in if length filtered > 0 then PrintSummary paint filtered status else []
      else concat (map (\<lambda>action.
             if IsAction status action
             then let filtered = summaryStore flags ts action
                  in if length filtered > 0 then PrintSummary paint filtered status else []
             else []) EndingActions))"

definition printSummaries :: "Paint \<Rightarrow> Flags \<Rightarrow> TestStorage \<Rightarrow> string list" where
  "printSummaries paint flags ts =
     (if length ts > 0 then concat (map (printSummary paint flags ts) (Summary flags)) else [])"

text \<open>
  The end of \<^verbatim>\<open>run\<close> (lines 1078 to 1085) and of \<^verbatim>\<open>main\<close> (lines 907 to 914).
  \<open>WaitResult\<close> is what \<^verbatim>\<open>cmd.Wait\<close> returns: nil, an \<^verbatim>\<open>*exec.ExitError\<close> with its
  \<^verbatim>\<open>Exited()\<close> and \<^verbatim>\<open>ExitCode()\<close>, or another error. The supervisor is the outcome of
  the three calls on the command: whether \<^verbatim>\<open>StdoutPipe\<close> and \<^verbatim>\<open>Start\<close> fail (lines 934
  to 943), and the result of \<^verbatim>\<open>Wait\<close>. \<open>run\<close> is the error that \<^verbatim>\<open>run\<close> returns,
  \<open>main\<close> the exit status of the program.
\<close>

datatype WaitResult = WaitNil | WaitExitError (Exited: bool) (ExitCode: int) | WaitOtherError

datatype RunError = ExitError int | OtherError

record Supervisor =
  StdoutPipe_fails :: bool
  Start_fails :: bool
  Wait :: WaitResult

definition run :: "Supervisor \<Rightarrow> RunError option" where
  "run cmd =
     (if StdoutPipe_fails cmd then Some OtherError
      else if Start_fails cmd then Some OtherError
      else case Wait cmd of
             WaitExitError exited code \<Rightarrow> if exited then Some (ExitError code) else None
           | _ \<Rightarrow> None)"

definition main :: "Supervisor \<Rightarrow> int" where
  "main cmd = (case run cmd of None \<Rightarrow> 0 | Some (ExitError ee) \<Rightarrow> ee | Some OtherError \<Rightarrow> 1)"

section \<open>Example inputs\<close>

text \<open>Concrete events, units and stores, at which the theorems below are evaluated.\<close>

definition mkEvent :: "Action \<Rightarrow> string \<Rightarrow> string \<Rightarrow> real \<Rightarrow> string \<Rightarrow> Event" where
  "mkEvent a p t el out =
     \<lparr>Time = 0, Action = a, Package = p, Test = t, Elapsed = el, Output = out\<rparr>"

text \<open>The unit \<^verbatim>\<open>p.T\<close> of a test that ran and passed after two hundredths of a second.\<close>

definition unit_pT :: Events where
  "unit_pT = [mkEvent ''run'' ''p'' ''T'' 0 '''',
              mkEvent ''output'' ''p'' ''T'' 0 (''=== RUN   T'' @ NL),
              mkEvent ''output'' ''p'' ''T'' 0 (''--- PASS: T (0.02s)'' @ NL),
              mkEvent ''pass'' ''p'' ''T'' (2 / 100) '''']"

text \<open>The store with the units \<^verbatim>\<open>a.T1\<close> (fail), \<^verbatim>\<open>a.T2\<close> (pass) and \<^verbatim>\<open>a\<close> (pass).\<close>

definition store_a :: TestStorage where
  "store_a = [(Key ''a'' '''', [mkEvent ''pass'' ''a'' '''' 0 '''']),
              (Key ''a'' ''T2'', [mkEvent ''pass'' ''a'' ''T2'' 0 '''']),
              (Key ''a'' ''T1'', [mkEvent ''fail'' ''a'' ''T1'' 0 ''''])]"

text \<open>The same units and a package \<^verbatim>\<open>b\<close> without tests of its own.\<close>

definition store_ab :: TestStorage where
  "store_ab = [(Key ''b'' '''', [mkEvent ''pass'' ''b'' '''' 0 '''']),
               (Key ''a'' ''T1'', [mkEvent ''pass'' ''a'' ''T1'' 0 '''']),
               (Key ''a'' '''', [mkEvent ''pass'' ''a'' '''' 0 '''']),
               (Key ''a'' ''T2'', [mkEvent ''pass'' ''a'' ''T2'' 0 ''''])]"

text \<open>A package-level unit with two coverage lines, and one with a single coverage line.\<close>

definition coverage_twice :: Events where
  "coverage_twice = [mkEvent ''output'' ''p'' '''' 0 (''coverage: 50.0% of statements'' @ NL),
                     mkEvent ''output'' ''p'' '''' 0 (''coverage: 87.3% of statements'' @ NL)]"

definition coverage_once :: Events where
  "coverage_once = [mkEvent ''output'' ''p'' '''' 0 (''PASS'' @ NL),
                    mkEvent ''output'' ''p'' '''' 0 (''coverage: 87.3% of statements'' @ NL),
                    mkEvent ''pass'' ''p'' '''' 0 '''']"

text \<open>
  The packages \<^verbatim>\<open>foo\<close> and \<^verbatim>\<open>foo-bar\<close> and the test \<^verbatim>\<open>foo.T\<close>, all passed: one map, visited
  in two orders.
\<close>

definition store_foo :: TestStorage where
  "store_foo = [(Key ''foo'' '''', [mkEvent ''pass'' ''foo'' '''' 0 '''']),
                (Key ''foo-bar'' '''', [mkEvent ''pass'' ''foo-bar'' '''' 0 '''']),
                (Key ''foo'' ''T'', [mkEvent ''pass'' ''foo'' ''T'' 0 ''''])]"

definition store_foo_2 :: TestStorage where
  "store_foo_2 = [(Key ''foo'' ''T'', [mkEvent ''pass'' ''foo'' ''T'' 0 '''']),
                 (Key ''foo'' '''', [mkEvent ''pass'' ''foo'' '''' 0 '''']),
                 (Key ''foo-bar'' '''', [mkEvent ''pass'' ''foo-bar'' '''' 0 ''''])]"

text \<open>A package \<^verbatim>\<open>q\<close> without test files, reported as skipped, and a skipped test \<^verbatim>\<open>p.T\<close>.\<close>

definition store_q :: TestStorage where
  "store_q = [(Key ''q'' '''',
                 [mkEvent ''output'' ''q'' '''' 0
                    (''?   '' @ TAB @ ''q'' @ TAB @ ''[no test files]'' @ NL),
                  mkEvent ''skip'' ''q'' '''' 0 '''']),
              (Key ''p'' ''T'', [mkEvent ''skip'' ''p'' ''T'' 0 ''''])]"

text \<open>The default flags at a given verbosity, a clock, and an input stream for \<^verbatim>\<open>p.T\<close>.\<close>

definition flags_V :: "int \<Rightarrow> Flags" where
  "flags_V v = \<lparr>V = v, Results = [StatusFail, StatusNone], HideEmptyResults = [],
                Summary = [StatusFail, StatusNone]\<rparr>"

definition clock0 :: "int \<Rightarrow> string" where
  "clock0 t = ''00:00:00''"

definition input_pT :: "Event option list" where
  "input_pT = [Some (mkEvent ''run'' ''p'' ''T'' 0 ''''),
               None,
               Some (mkEvent ''fail'' ''p'' ''T'' 0 ''''),
               Some (mkEvent ''output'' ''p'' ''T'' 0 (''late'' @ NL)),
               Some (mkEvent ''fail'' ''p'' ''T'' 0 '''')]"

text \<open>A test runner that started and exited with status 2.\<close>

definition cmd_exit2 :: Supervisor where
  "cmd_exit2 = \<lparr>StdoutPipe_fails = False, Start_fails = False, Wait = WaitExitError True 2\<rparr>"

section \<open>Auxiliary facts\<close>

lemmas eval_strings = HasPrefix_def HasSuffix_def TrimPrefix_def TrimSuffix_def TrimLeft_space_def
  TrimSpace_def TrimRightSpace_def space1_def space2_def space3_def

lemma mset_sift: "mset (sift lt x ys) = add_mset x (mset ys)"
  by (induction ys) auto

lemma mset_foldl_sift: "mset (foldl (\<lambda>acc x. sift lt x acc) acc xs) = mset acc + mset xs"
  by (induction xs arbitrary: acc) (auto simp: mset_sift)

lemma mset_SliceStable: "mset (SliceStable lt xs) = mset xs"
  by (simp add: SliceStable_def mset_foldl_sift)

lemma mset_OrderedKeys: "mset (OrderedKeys ts) = mset (map fst ts)"
  by (simp add: OrderedKeys_def mset_SliceStable)

lemma set_OrderedKeys: "set (OrderedKeys ts) = fst ` set ts"
  using mset_OrderedKeys[of ts] by (metis list.set_map set_mset_mset)

text \<open>The store that the scanning loop builds is a map: its keys are distinct.\<close>

lemma fst_set_assign: "fst ` set (assign ts key v) = insert key (fst ` set ts)"
  by (induction ts key v rule: assign.induct) auto

lemma distinct_assign: "distinct (map fst ts) \<Longrightarrow> distinct (map fst (assign ts key v))"
  by (induction ts key v rule: assign.induct) (auto simp: fst_set_assign)

lemma distinct_Append: "distinct (map fst ts) \<Longrightarrow> distinct (map fst (Append ts e))"
  by (simp add: Append_def Let_def distinct_assign)

lemma tests_scan_step:
  "tests (scan_step paint clock flags st line) =
     (case line of None \<Rightarrow> tests st | Some e \<Rightarrow> Append (tests st) e)"
  by (cases line) (auto simp: scan_step_def Let_def)

lemma distinct_foldl_scan_step:
  "distinct (map fst (tests st)) \<Longrightarrow>
   distinct (map fst (tests (foldl (scan_step paint clock flags) st input)))"
proof (induction input arbitrary: st)
  case Nil
  then show ?case by simp
next
  case (Cons line input)
  have "distinct (map fst (tests (scan_step paint clock flags st line)))"
    using Cons.prems by (cases line) (auto simp: tests_scan_step distinct_Append)
  then show ?case by (simp add: Cons.IH)
qed

lemma distinct_scan: "distinct (map fst (tests (scan paint clock flags input)))"
  unfolding scan_def by (rule distinct_foldl_scan_step) (simp add: scan_init_def)

lemma Sprintf_2f_002: "Sprintf_2f (1 / 50) = ''0.02''"
  by (simp add: Sprintf_2f_def round_half_even_def Itoa.simps[of 0] digit_char_def Let_def)

lemma Sprintf_2f_0: "Sprintf_2f 0 = ''0.00''"
  by (simp add: Sprintf_2f_def round_half_even_def Itoa.simps[of 0] digit_char_def Let_def)

lemma Itoa_2: "Itoa (Suc (Suc 0)) = ''2''"
  using Itoa.simps[of 2] by (simp add: digit_char_def numeral_2_eq_2)

lemma Sprintf_pad_PASS: "Sprintf_pad 6 ''PASS'' = ''  PASS''"
  by (simp add: Sprintf_pad_def RuneCount_def numeral_2_eq_2)

lemma hrule_bytes:
  "hrule = [CHR 0xE2, CHR 0x95, CHR 0x90, CHR 0xE2, CHR 0x95, CHR 0x90,
            CHR 0xE2, CHR 0x95, CHR 0x90, CHR 0xE2, CHR 0x95, CHR 0x90,
            CHR 0xE2, CHR 0x95, CHR 0x90, CHR 0xE2, CHR 0x95, CHR 0x90,
            CHR 0xE2, CHR 0x95, CHR 0x90, CHR 0xE2, CHR 0x95, CHR 0x90,
            CHR 0xE2, CHR 0x95, CHR 0x90, CHR 0xE2, CHR 0x95, CHR 0x90,
            CHR 0xE2, CHR 0x95, CHR 0x90, CHR 0xE2, CHR 0x95, CHR 0x90]"
  by (simp add: hrule_def numeral_eq_Suc)

lemma Compact_unit_pT: "Compact unit_pT = [mkEvent ''pass'' ''p'' ''T'' (2 / 100) '''']"
  by (simp add: Compact_def unit_pT_def mkEvent_def elapsedAt_def FindFirstByAction_def
      uninteresting_def Let_def Sprintf_2f_002 Sprintf_2f_0 eval_strings)

lemma OrderedKeys_store_a:
  "OrderedKeys store_a = [Key ''a'' ''T1'', Key ''a'' ''T2'', Key ''a'' '''']"
  by (simp add: store_a_def OrderedKeys_def SliceStable_def Key_less_def Key_String_def
      natural_Less.simps isDigit_def ParseUint_def decimal_def)

lemma PrintSummary_store_a:
  "PrintSummary plain store_a StatusPass =
     [hrule @ '' PASS '' @ hrule @ NL,
      ''  PASS a.T1'' @ NL, ''  PASS a.T2'' @ NL, ''  PASS a'' @ NL]"
  unfolding PrintSummary_def OrderedKeys_store_a Let_def
  by (simp add: PrintSummary_line_def Let_def plain_def Sprintf_pad_PASS
      lookup_def elapsedTag_def noTestsTag_def coverageTag_def FindFirstByAction_def
      EndingActions_def IsPackageWithoutTest_def FindCoverage_def store_a_def mkEvent_def
      eval_strings)

lemma PrintShortSummary_store_a:
  "PrintShortSummary plain store_a StatusPass =
     [hrule @ '' PASS '' @ hrule @ NL, ''  PASS a   <2 tests>'' @ NL]"
  by (simp add: PrintShortSummary_def PrintShortSummary_line_def FindPackageResults_def
      OrderedKeys_def SliceStable_def countTag_def CountTests_def FindPackageTests_def
      FilterPackageResults_def Itoa_2 Let_def plain_def Sprintf_pad_PASS
      lookup_def elapsedTag_def noTestsTag_def coverageTag_def FindFirstByAction_def
      EndingActions_def IsPackageWithoutTest_def FindCoverage_def store_a_def mkEvent_def
      eval_strings)

lemma countTag_eq:
  "countTag paint status ts key =
     ''   '' @ paint (statusColors status)
       (''<'' @ Itoa (length [k \<leftarrow> map fst ts. Key_Package k = Key_Package key \<and> Key_Test k \<noteq> ''''])
        @ '' tests>'')"
proof -
  have "length (filter (\<lambda>(k, events). Key_Test k \<noteq> '''')
                  (filter (\<lambda>(k, events). Key_Package key = Key_Package k) ts))
        = length [k \<leftarrow> map fst ts. Key_Package k = Key_Package key \<and> Key_Test k \<noteq> '''']"
    by (induction ts) auto
  then show ?thesis
    by (simp add: countTag_def CountTests_def FindPackageTests_def FilterPackageResults_def Let_def)
qed

lemma uninteresting_Action:
  "uninteresting f s p e \<Longrightarrow> Action e \<in> {''run'', ''cont'', ''pause'', ''output''}"
  by (auto simp: uninteresting_def Let_def)

lemma Status_filter:
  assumes "\<forall>e \<in> set es. \<not> P e \<longrightarrow> Action e \<in> {''run'', ''cont'', ''pause'', ''output''}"
  shows "Events_Status (filter P es) = Events_Status es"
  using assms
proof (induction es)
  case Nil
  then show ?case by simp
next
  case (Cons a es)
  then have IH: "Events_Status (filter P es) = Events_Status es" by simp
  show ?case
  proof (cases "P a")
    case True
    then show ?thesis using IH by simp
  next
    case False
    with Cons.prems have "Action a \<in> {''run'', ''cont'', ''pause'', ''output''}" by simp
    then show ?thesis using False IH by auto
  qed
qed

lemma FindCoverage_loop_find:
  "FindCoverage_loop es =
     (case find (\<lambda>e. Action e = ActionOutput \<and> isCoverageLine (TrimSpace (Output e))) es of
        None \<Rightarrow> '''' | Some e \<Rightarrow> coverageOf (TrimSpace (Output e)))"
  by (induction es) auto

lemma coverageOf_873: "coverageOf ''coverage: 87.3% of statements'' = ''87.3%''"
  by (simp add: coverageOf_def eval_strings)

lemma TrimSpace_coverage_873:
  "TrimSpace (''coverage: 87.3% of statements'' @ NL) = ''coverage: 87.3% of statements''"
  by (simp add: eval_strings)

lemma scan_step_inv:
  assumes "distinct (map fst (details st))" "\<forall>k \<in> fst ` set (details st). printed st k"
  shows "distinct (map fst (details (scan_step paint clock flags st line))) \<and>
         (\<forall>k \<in> fst ` set (details (scan_step paint clock flags st line)).
             printed (scan_step paint clock flags st line) k)"
  using assms by (cases line) (auto simp: scan_step_def Let_def)

lemma scan_foldl_inv:
  assumes "distinct (map fst (details st))" "\<forall>k \<in> fst ` set (details st). printed st k"
  shows "distinct (map fst (details (foldl (scan_step paint clock flags) st input)))"
  using assms
proof (induction input arbitrary: st)
  case Nil
  then show ?case by simp
next
  case (Cons line input)
  from scan_step_inv[OF Cons.prems] show ?case
    by (simp add: Cons.IH)
qed

lemma distinct_filter_le1:
  "distinct (map f xs) \<Longrightarrow> length (filter (\<lambda>d. f d = k) xs) \<le> 1"
  by (induction xs) (auto simp: filter_empty_conv image_iff)

lemma printSummary_Skip:
  "printSummary paint flags ts StatusSkip =
     (if summaryStore flags ts ActionSkip = [] then []
      else PrintSummary paint (summaryStore flags ts ActionSkip) StatusSkip)"
  by (simp add: printSummary_def EndingActions_def IsAction_def Let_def)

lemma Itoa_0: "Itoa 0 = ''0''"
  using Itoa.simps[of 0] by (simp add: digit_char_def)

lemma Sprintf_pad_SKIP: "Sprintf_pad 6 ''SKIP'' = ''  SKIP''"
  by (simp add: Sprintf_pad_def RuneCount_def numeral_2_eq_2)

lemma PrintShortSummary_store_ab:
  "PrintShortSummary plain store_ab StatusPass =
     [hrule @ '' PASS '' @ hrule @ NL,
      ''  PASS a   <2 tests>'' @ NL, ''  PASS b   <0 tests>'' @ NL]"
  by (simp add: PrintShortSummary_def PrintShortSummary_line_def FindPackageResults_def
      OrderedKeys_def SliceStable_def Key_less_def Key_String_def natural_Less.simps isDigit_def
      countTag_def CountTests_def FindPackageTests_def
      FilterPackageResults_def Itoa_2 Itoa_0 Let_def plain_def Sprintf_pad_PASS
      lookup_def elapsedTag_def noTestsTag_def coverageTag_def FindFirstByAction_def
      EndingActions_def IsPackageWithoutTest_def FindCoverage_def store_ab_def mkEvent_def
      eval_strings)

lemma length_OrderedKeys: "length (OrderedKeys ts) = length ts"
  using mset_OrderedKeys[of ts] by (metis length_map size_mset)

lemma lookup_filter:
  assumes "distinct (map fst ts)" "k \<in> fst ` set (filter P ts)"
  shows "lookup (filter P ts) k = lookup ts k"
proof -
  from assms(2) obtain es where m: "(k, es) \<in> set (filter P ts)" by auto
  have "distinct (map fst (filter P ts))"
    using assms(1) by (rule distinct_map_filter)
  with m have "map_of (filter P ts) k = Some es" by simp
  moreover from m assms(1) have "map_of ts k = Some es" by simp
  ultimately show ?thesis by (simp add: lookup_def)
qed

lemma summaryStore_Skip:
  "summaryStore flags ts ActionSkip =
     [(k, es) \<leftarrow> ts. list_ex (\<lambda>e. Action e = ''skip'') es \<and>
                       (V flags \<le> 3 \<longrightarrow> \<not> IsPackageWithoutTest es)]"
  by (simp add: summaryStore_def FindByAction_def FilterNotests_def Let_def split_def)

lemma printSummary_store_q_V0:
  "printSummary plain (flags_V 0) store_q StatusSkip =
     [hrule @ '' SKIP '' @ hrule @ NL, ''  SKIP p.T'' @ NL]"
  by (simp add: printSummary_Skip summaryStore_Skip PrintSummary_def PrintSummary_line_def
      OrderedKeys_def SliceStable_def Key_less_def Key_String_def natural_Less.simps isDigit_def
      Let_def plain_def Sprintf_pad_SKIP lookup_def elapsedTag_def noTestsTag_def coverageTag_def
      FindFirstByAction_def EndingActions_def IsPackageWithoutTest_def FindCoverage_def
      flags_V_def store_q_def mkEvent_def eval_strings)

lemma printSummary_store_q_V4:
  "printSummary plain (flags_V 4) store_q StatusSkip =
     [hrule @ '' SKIP '' @ hrule @ NL, ''  SKIP p.T'' @ NL, ''  SKIP q  [no tests]'' @ NL]"
  by (simp add: printSummary_Skip summaryStore_Skip PrintSummary_def PrintSummary_line_def
      OrderedKeys_def SliceStable_def Key_less_def Key_String_def natural_Less.simps isDigit_def
      Let_def plain_def Sprintf_pad_SKIP lookup_def elapsedTag_def noTestsTag_def coverageTag_def
      FindFirstByAction_def EndingActions_def IsPackageWithoutTest_def FindCoverage_def
      isCoverageLine_def flags_V_def store_q_def mkEvent_def eval_strings)

section \<open>The claims\<close>

subsection \<open>C1: the count of tests in a summary line\<close>

text \<open>
  C1, as stated, fails: \<^verbatim>\<open>PrintSummary\<close>, the grouped summary that the stream driver
  prints, writes no count of tests on a package-level line. For the store with the units
  \<^verbatim>\<open>a.T1\<close>, \<^verbatim>\<open>a.T2\<close> and \<^verbatim>\<open>a\<close> it prints the header and the three lines below, and the
  text \<^verbatim>\<open><2 tests>\<close> occurs nowhere in them.
\<close>

theorem PrintSummary_no_count_counterexample:
  "PrintSummary plain store_a StatusPass =
     [hrule @ '' PASS '' @ hrule @ NL,
      ''  PASS a.T1'' @ NL, ''  PASS a.T2'' @ NL, ''  PASS a'' @ NL] \<and>
   \<not> Contains (concat (PrintSummary plain store_a StatusPass)) ''<2 tests>''"
  by (simp add: PrintSummary_store_a hrule_bytes HasPrefix_def)

text \<open>
  C1, amended: the count is printed by the short summary \<^verbatim>\<open>PrintShortSummary\<close>. For
  every store, status and rendering of colours, the short summary prints its header and
  then one line for each package-level key of the store, in some order of these keys. The
  line of a key is the status tag, the package of the key, the elapsed time if there is
  one, the painted text \<^verbatim>\<open><n tests>\<close>, where \<open>n\<close> is the number of keys of the store with
  the package of that very key and a test name, and the two tags of the package. For the
  store with the units \<^verbatim>\<open>a.T1\<close>, \<^verbatim>\<open>a.T2\<close> and \<^verbatim>\<open>a\<close> the line of package \<^verbatim>\<open>a\<close> shows
  \<^verbatim>\<open><2 tests>\<close>.
\<close>

theorem PrintShortSummary_count:
  "(\<exists>keys. mset keys = mset [k \<leftarrow> map fst ts. Key_Test k = ''''] \<and>
      PrintShortSummary paint ts status =
        (paint (statusColors status) hrule @ '' '' @
         paint (statusColorsBold status) (statusNames status) @ '' '' @
         paint (statusColors status) hrule @ NL) #
        map (\<lambda>key.
               paint (statusColors status) (Sprintf_pad 6 (statusNames status) @ '' '') @
               paint packageColor (Key_Package key) @
               elapsedTag paint (lookup ts key) @ ''   '' @
               paint (statusColors status)
                 (''<'' @ Itoa (length [k \<leftarrow> map fst ts.
                                        Key_Package k = Key_Package key \<and> Key_Test k \<noteq> ''''])
                  @ '' tests>'') @
               noTestsTag (lookup ts key) @ coverageTag paint (lookup ts key) @ NL)
            keys) \<and>
   PrintShortSummary plain store_a StatusPass =
     [hrule @ '' PASS '' @ hrule @ NL, ''  PASS a   <2 tests>'' @ NL]"
proof (intro conjI exI)
  have "map fst (FindPackageResults ts) = [k \<leftarrow> map fst ts. Key_Test k = '''']"
    unfolding FindPackageResults_def by (induction ts) auto
  then show "mset (OrderedKeys (FindPackageResults ts)) = mset [k \<leftarrow> map fst ts. Key_Test k = '''']"
    by (simp add: mset_OrderedKeys)
next
  show "PrintShortSummary paint ts status =
        (paint (statusColors status) hrule @ '' '' @
         paint (statusColorsBold status) (statusNames status) @ '' '' @
         paint (statusColors status) hrule @ NL) #
        map (\<lambda>key.
               paint (statusColors status) (Sprintf_pad 6 (statusNames status) @ '' '') @
               paint packageColor (Key_Package key) @
               elapsedTag paint (lookup ts key) @ ''   '' @
               paint (statusColors status)
                 (''<'' @ Itoa (length [k \<leftarrow> map fst ts.
                                        Key_Package k = Key_Package key \<and> Key_Test k \<noteq> ''''])
                  @ '' tests>'') @
               noTestsTag (lookup ts key) @ coverageTag paint (lookup ts key) @ NL)
            (OrderedKeys (FindPackageResults ts))"
    by (simp add: PrintShortSummary_def PrintShortSummary_line_def Let_def countTag_eq)
next
  show "PrintShortSummary plain store_a StatusPass =
     [hrule @ '' PASS '' @ hrule @ NL, ''  PASS a   <2 tests>'' @ NL]"
    by (rule PrintShortSummary_store_a)
qed

theorem PrintShortSummary_count_witness:
  "PrintShortSummary plain store_ab StatusPass =
     [hrule @ '' PASS '' @ hrule @ NL,
      ''  PASS a   <2 tests>'' @ NL, ''  PASS b   <0 tests>'' @ NL] \<and>
   [k \<leftarrow> map fst store_ab. Key_Test k = ''''] = [Key ''b'' '''', Key ''a'' ''''] \<and>
   length [k \<leftarrow> map fst store_ab. Key_Package k = ''a'' \<and> Key_Test k \<noteq> ''''] = 2 \<and>
   length [k \<leftarrow> map fst store_ab. Key_Package k = ''b'' \<and> Key_Test k \<noteq> ''''] = 0"
  using PrintShortSummary_count[of store_ab plain StatusPass]
  by (simp add: PrintShortSummary_store_ab) (simp add: store_ab_def)

subsection \<open>C2: the derived status\<close>

text \<open>
  C2: for every event sequence, the derived status is the status of the first event
  whose action is one of fail, pass, skip and bench (the status of an action is the status
  of the same name), and it is none when the sequence has no such event. The derivation is
  a function of the sequence alone.
\<close>

theorem Status_first_ending:
  "Status_String (Events_Status es) =
     (case find (\<lambda>e. Action e \<in> {''fail'', ''pass'', ''skip'', ''bench''}) es of
        None \<Rightarrow> ''none'' | Some e \<Rightarrow> Action e)"
  by (induction es) auto

theorem Status_first_ending_witness:
  "Events_Status unit_pT = StatusPass \<and>
   find (\<lambda>e. Action e \<in> {''fail'', ''pass'', ''skip'', ''bench''}) unit_pT =
     Some (mkEvent ''pass'' ''p'' ''T'' (2 / 100) '''')"
  using Status_first_ending[of unit_pT]
  by (simp add: unit_pT_def mkEvent_def)

subsection \<open>C3: compaction returns a subsequence and is skipped at high verbosity\<close>

text \<open>
  C3: for every event sequence, the compacted sequence is a subsequence of the original.
  Above verbosity 3 the detail of a unit is computed from the original sequence: the
  sequence behind the gate and the events printed are the original sequence, and for a
  unit with events \<^verbatim>\<open>PrintDetail\<close> prints a header, an empty line, one line for every
  event of the original sequence in its order, and an empty line.
\<close>

theorem Compact_subseq_identity_above_V3:
  "subseq (Compact es) es \<and>
   (V flags > V3 \<longrightarrow>
      PrintDetail_events flags es = es \<and> PrintDetail_filteredEvents flags es = es \<and>
      (es \<noteq> [] \<longrightarrow> (\<exists>header textColor. PrintDetail paint clock flags es =
          [header, NL] @ map (PrintDetail_line paint clock flags textColor) es @ [NL])))"
proof (intro conjI impI)
  show "subseq (Compact es) es"
    by (simp add: Compact_def Let_def)
next
  assume v: "V flags > V3"
  then show e: "PrintDetail_events flags es = es"
    by (simp add: PrintDetail_events_def)
  with v show f: "PrintDetail_filteredEvents flags es = es"
    by (simp add: PrintDetail_filteredEvents_def)
  assume ne: "es \<noteq> []"
  with v e f show "\<exists>header textColor. PrintDetail paint clock flags es =
          [header, NL] @ map (PrintDetail_line paint clock flags textColor) es @ [NL]"
    by (auto simp: PrintDetail_def Let_def)
qed

theorem Compact_subseq_identity_above_V3_witness:
  "subseq (Compact unit_pT) unit_pT \<and>
   Compact unit_pT = [mkEvent ''pass'' ''p'' ''T'' (2 / 100) ''''] \<and>
   V (flags_V 4) > V3 \<and> unit_pT \<noteq> [] \<and>
   PrintDetail_filteredEvents (flags_V 4) unit_pT = unit_pT"
  using Compact_subseq_identity_above_V3[of unit_pT "flags_V 4" plain clock0]
  by (simp add: Compact_unit_pT flags_V_def) (simp add: unit_pT_def)

subsection \<open>C4: the order of the keys\<close>

text \<open>
  C4 is not what \<^verbatim>\<open>OrderedKeys\<close> does: the comparison of lines 607 to 613 is no order.
  With the packages \<^verbatim>\<open>foo\<close> and \<^verbatim>\<open>foo-bar\<close> and the test \<^verbatim>\<open>foo.T\<close> it puts \<^verbatim>\<open>foo\<close> before
  \<^verbatim>\<open>foo-bar\<close> and \<^verbatim>\<open>foo-bar\<close> before \<^verbatim>\<open>foo.T\<close> (the natural order of the names, a hyphen
  being less than a dot) and \<^verbatim>\<open>foo.T\<close> before \<^verbatim>\<open>foo\<close> (the package-level key last). The
  sort then returns what the order of the visit of the map makes of it: the same three
  keys, visited in two orders, come out in two orders, and in the first the package-level
  key \<^verbatim>\<open>foo\<close> is before the key of its own test.
\<close>

theorem OrderedKeys_visit_order:
  "Key_less (Key ''foo'' '''') (Key ''foo-bar'' '''') \<and>
   Key_less (Key ''foo-bar'' '''') (Key ''foo'' ''T'') \<and>
   Key_less (Key ''foo'' ''T'') (Key ''foo'' '''') \<and>
   mset store_foo = mset store_foo_2 \<and>
   OrderedKeys store_foo = [Key ''foo'' '''', Key ''foo-bar'' '''', Key ''foo'' ''T''] \<and>
   OrderedKeys store_foo_2 = [Key ''foo'' ''T'', Key ''foo'' '''', Key ''foo-bar'' '''']"
  by (simp add: store_foo_def store_foo_2_def OrderedKeys_def SliceStable_def Key_less_def
      Key_String_def natural_Less.simps isDigit_def)

subsection \<open>C5: one immediate print for a key\<close>

text \<open>
  C5: in the scanning loop, whatever the input and the flags, \<^verbatim>\<open>PrintDetail\<close> is called
  at most once for every key.
\<close>

theorem scan_one_detail_per_key:
  "length (filter (\<lambda>d. fst d = key) (details (scan paint clock flags input))) \<le> 1"
  unfolding scan_def
  by (rule distinct_filter_le1, rule scan_foldl_inv) (simp_all add: scan_init_def)

theorem scan_one_detail_per_key_witness:
  "map fst (details (scan plain clock0 (flags_V 0) input_pT)) = [Key ''p'' ''T''] \<and>
   length (filter (\<lambda>d. fst d = Key ''p'' ''T'')
     (details (scan plain clock0 (flags_V 0) input_pT))) \<le> 1"
  using scan_one_detail_per_key[of "Key ''p'' ''T''" plain clock0 "flags_V 0" input_pT]
  by (simp add: scan_def scan_init_def scan_step_def input_pT_def flags_V_def mkEvent_def
      Event_Key_def HasAction_def IsAction_def Let_def)

subsection \<open>C6: the coverage of a package\<close>

text \<open>
  C6, as stated, fails: \<^verbatim>\<open>FindCoverage\<close> returns the percentage of the first coverage
  line. The package-level unit below has an output event whose trimmed text is
  \<^verbatim>\<open>coverage: 87.3% of statements\<close>, behind another coverage line, and the result is the
  percentage of that other line.
\<close>

theorem FindCoverage_first_match_counterexample:
  "Action (coverage_twice ! 1) = ActionOutput \<and>
   Package (coverage_twice ! 1) = ''p'' \<and> Test (coverage_twice ! 1) = '''' \<and>
   Package (coverage_twice ! 0) = ''p'' \<and> Test (coverage_twice ! 0) = '''' \<and>
   TrimSpace (Output (coverage_twice ! 1)) = ''coverage: 87.3% of statements'' \<and>
   FindCoverage coverage_twice = ''50.0%''"
  by (simp add: coverage_twice_def mkEvent_def FindCoverage_def isCoverageLine_def
      coverageOf_def eval_strings)

text \<open>
  C6, amended: for every package-level unit (every event has the package of the unit,
  which is not empty, and no test) whose first output event with the coverage prefix and
  suffix has the trimmed text \<^verbatim>\<open>coverage: 87.3% of statements\<close>, coverage extraction
  returns \<^verbatim>\<open>87.3%\<close>; for every sequence with no output event whose trimmed text has the
  coverage prefix and the suffix, it returns the empty string.
\<close>

theorem FindCoverage_first_line:
  "((\<forall>e \<in> set es. Package e = p \<and> Test e = '''') \<and> p \<noteq> '''' \<and>
    find (\<lambda>e. Action e = ActionOutput \<and> HasPrefix (TrimSpace (Output e)) ''coverage: '' \<and>
               HasSuffix (TrimSpace (Output e)) '' of statements'') es = Some e1 \<and>
    TrimSpace (Output e1) = ''coverage: 87.3% of statements''
      \<longrightarrow> FindCoverage es = ''87.3%'') \<and>
   ((\<forall>e \<in> set es. \<not> (Action e = ActionOutput \<and>
        HasPrefix (TrimSpace (Output e)) ''coverage: '' \<and>
        HasSuffix (TrimSpace (Output e)) '' of statements''))
      \<longrightarrow> FindCoverage es = '''')"
proof (intro conjI impI)
  assume a: "(\<forall>e \<in> set es. Package e = p \<and> Test e = '''') \<and> p \<noteq> '''' \<and>
    find (\<lambda>e. Action e = ActionOutput \<and> HasPrefix (TrimSpace (Output e)) ''coverage: '' \<and>
               HasSuffix (TrimSpace (Output e)) '' of statements'') es = Some e1 \<and>
    TrimSpace (Output e1) = ''coverage: 87.3% of statements''"
  then have f: "find (\<lambda>e. Action e = ActionOutput \<and> isCoverageLine (TrimSpace (Output e))) es
      = Some e1"
    by (simp add: isCoverageLine_def)
  then have "es \<noteq> []" by auto
  then obtain e0 es' where es: "es = e0 # es'" by (cases es) auto
  with a have "Package e0 \<noteq> ''''" "Test e0 = ''''" by auto
  then have "FindCoverage es = FindCoverage_loop es"
    by (simp add: FindCoverage_def es)
  also have "\<dots> = coverageOf (TrimSpace (Output e1))"
    by (simp add: FindCoverage_loop_find f)
  also have "\<dots> = ''87.3%''"
    using a by (simp add: coverageOf_873)
  finally show "FindCoverage es = ''87.3%''" .
next
  assume "\<forall>e \<in> set es. \<not> (Action e = ActionOutput \<and>
        HasPrefix (TrimSpace (Output e)) ''coverage: '' \<and>
        HasSuffix (TrimSpace (Output e)) '' of statements'')"
  then have "find (\<lambda>e. Action e = ActionOutput \<and> isCoverageLine (TrimSpace (Output e))) es
      = None"
    by (auto simp: find_None_iff isCoverageLine_def)
  then have "FindCoverage_loop es = ''''"
    by (simp add: FindCoverage_loop_find)
  then show "FindCoverage es = ''''"
    by (simp add: FindCoverage_def split: list.splits)
qed

theorem FindCoverage_first_line_witness:
  "list_all (\<lambda>e. Package e = ''p'' \<and> Test e = '''') coverage_once \<and>
   find (\<lambda>e. Action e = ActionOutput \<and> HasPrefix (TrimSpace (Output e)) ''coverage: '' \<and>
              HasSuffix (TrimSpace (Output e)) '' of statements'') coverage_once
     = Some (coverage_once ! 1) \<and>
   TrimSpace (Output (coverage_once ! 1)) = ''coverage: 87.3% of statements'' \<and>
   FindCoverage coverage_once = ''87.3%'' \<and>
   list_all (\<lambda>e. \<not> (Action e = ActionOutput \<and>
        HasPrefix (TrimSpace (Output e)) ''coverage: '' \<and>
        HasSuffix (TrimSpace (Output e)) '' of statements'')) unit_pT \<and>
   FindCoverage unit_pT = ''''"
  using FindCoverage_first_line[of coverage_once "''p''" "coverage_once ! 1"]
    FindCoverage_first_line[of unit_pT "''p''" "coverage_once ! 1"]
  by (simp add: coverage_once_def unit_pT_def mkEvent_def eval_strings)

subsection \<open>C7: filtering by action\<close>

text \<open>
  C7: for every store and every list of actions, \<^verbatim>\<open>FilterAction\<close> applied twice is
  \<^verbatim>\<open>FilterAction\<close> applied once; and for every store (a map: its keys are distinct) and
  every action, the keys of \<^verbatim>\<open>FindByAction\<close> and the keys of \<^verbatim>\<open>FilterAction\<close> of that
  action are disjoint and are together the keys of the store.
\<close>

theorem FilterAction_idem_complement:
  assumes "distinct (map fst ts)"
  shows "FilterAction (FilterAction ts A) A = FilterAction ts A \<and>
     fst ` set (FindByAction ts a) \<inter> fst ` set (FilterAction ts [a]) = {} \<and>
     fst ` set (FindByAction ts a) \<union> fst ` set (FilterAction ts [a]) = fst ` set ts"
proof (intro conjI)
  show "FilterAction (FilterAction ts A) A = FilterAction ts A"
    by (simp add: FilterAction_def)
  show "fst ` set (FindByAction ts a) \<inter> fst ` set (FilterAction ts [a]) = {}"
  proof (rule ccontr)
    assume "fst ` set (FindByAction ts a) \<inter> fst ` set (FilterAction ts [a]) \<noteq> {}"
    then obtain k es1 es2 where 1: "(k, es1) \<in> set (FindByAction ts a)"
      and 2: "(k, es2) \<in> set (FilterAction ts [a])" by fastforce
    from 1 have a1: "(k, es1) \<in> set ts" "list_ex (\<lambda>e. Action e = a) es1"
      by (auto simp: FindByAction_def)
    from 2 have a2: "(k, es2) \<in> set ts" "\<not> list_ex (\<lambda>e. Action e = a) es2"
      by (auto simp: FilterAction_def)
    from assms a1(1) a2(1) have "es1 = es2" by (meson eq_key_imp_eq_value)
    with a1(2) a2(2) show False by simp
  qed
  have "\<And>k es. (k, es) \<in> set ts \<Longrightarrow>
      (k, es) \<in> set (FindByAction ts a) \<or> (k, es) \<in> set (FilterAction ts [a])"
    by (auto simp: FindByAction_def FilterAction_def)
  moreover have "set (FindByAction ts a) \<subseteq> set ts" "set (FilterAction ts [a]) \<subseteq> set ts"
    by (auto simp: FindByAction_def FilterAction_def)
  ultimately show
    "fst ` set (FindByAction ts a) \<union> fst ` set (FilterAction ts [a]) = fst ` set ts"
    by force
qed

theorem FilterAction_idem_complement_witness:
  "distinct (map fst store_a) \<and>
   FilterAction (FilterAction store_a EndingActions) EndingActions
     = FilterAction store_a EndingActions \<and>
   map fst (FindByAction store_a ActionPass) = [Key ''a'' '''', Key ''a'' ''T2''] \<and>
   map fst (FilterAction store_a [ActionPass]) = [Key ''a'' ''T1'']"
  using FilterAction_idem_complement[of store_a EndingActions ActionPass]
  by (simp add: store_a_def FindByAction_def FilterAction_def mkEvent_def)

subsection \<open>C8: the exit status of the test runner\<close>

text \<open>
  C8: when the test runner was started and exits with a status that is not zero, the
  program ends with that exit status.
\<close>

theorem exit_status_propagated:
  "\<not> StdoutPipe_fails cmd \<Longrightarrow> \<not> Start_fails cmd \<Longrightarrow>
   Wait cmd = WaitExitError True code \<Longrightarrow> code \<noteq> 0 \<Longrightarrow> main cmd = code"
  by (simp add: main_def run_def)

theorem exit_status_propagated_witness:
  "\<not> StdoutPipe_fails cmd_exit2 \<and> \<not> Start_fails cmd_exit2 \<and>
   Wait cmd_exit2 = WaitExitError True 2 \<and> (2 :: int) \<noteq> 0 \<and> main cmd_exit2 = 2"
  using exit_status_propagated[of cmd_exit2 2]
  by (simp add: cmd_exit2_def)

subsection \<open>C9: compaction keeps the status\<close>

text \<open>
  C9: for every event sequence, the status derived from the compacted sequence is the
  status derived from the original sequence.
\<close>

theorem Compact_preserves_Status:
  "Events_Status (Compact es) = Events_Status es"
  unfolding Compact_def Let_def
  by (rule Status_filter) (auto dest: uninteresting_Action)

theorem Compact_preserves_Status_witness:
  "Compact unit_pT = [mkEvent ''pass'' ''p'' ''T'' (2 / 100) ''''] \<and>
   Events_Status (Compact unit_pT) = StatusPass \<and> Events_Status unit_pT = StatusPass"
  using Compact_preserves_Status[of unit_pT]
  by (simp add: Compact_unit_pT) (simp add: mkEvent_def)

subsection \<open>C10: packages without tests in the summary of the skipped units\<close>

text \<open>
  C10: for every store (a map: its keys are distinct), the summary of the status skip is
  nothing, or a header and then one line for each of its keys, in some order of these keys;
  the line of a key is the status tag, the package of the key and, for a test, a dot and the
  name of the test, with the elapsed time and the tags of a package. The keys of the summary
  are the keys of the units with a skip event, without the units flagged as packages
  without tests when the verbosity is at most 3. So a flagged unit with a skip event has no
  line at a verbosity of at most 3, and has its line at a verbosity of 4 or more.
\<close>

theorem skip_summary_no_tests:
  assumes "distinct (map fst ts)"
  shows "\<exists>keys.
     mset keys = mset (map fst [(k, es) \<leftarrow> ts. list_ex (\<lambda>e. Action e = ''skip'') es \<and>
                                   (V flags \<le> 3 \<longrightarrow> \<not> IsPackageWithoutTest es)]) \<and>
     printSummary paint flags ts StatusSkip =
       (if keys = [] then []
        else (paint skipColor hrule @ '' '' @ paint skipColor ''SKIP'' @ '' '' @
              paint skipColor hrule @ NL) #
             map (\<lambda>key.
                    paint skipColor ''  SKIP '' @ paint packageColor (Key_Package key) @
                    (if Key_Test key = ''''
                     then elapsedTag paint (lookup ts key) @ noTestsTag (lookup ts key) @
                          coverageTag paint (lookup ts key)
                     else ''.'' @ paint testColor (Key_Test key) @
                          elapsedTag paint (lookup ts key)) @ NL)
                 keys) \<and>
     (\<forall>(k, es) \<in> set ts.
         list_ex (\<lambda>e. Action e = ''skip'') es \<and> IsPackageWithoutTest es \<longrightarrow>
           (V flags \<le> 3 \<longrightarrow> k \<notin> set keys) \<and> (4 \<le> V flags \<longrightarrow> k \<in> set keys))"
proof -
  let ?Q = "\<lambda>(k, es). list_ex (\<lambda>e. Action e = ''skip'') es \<and>
                       (V flags \<le> 3 \<longrightarrow> \<not> IsPackageWithoutTest es)"
  let ?st = "filter ?Q ts"
  let ?keys = "OrderedKeys ?st"
  let ?line = "\<lambda>key.
                    paint skipColor ''  SKIP '' @ paint packageColor (Key_Package key) @
                    (if Key_Test key = ''''
                     then elapsedTag paint (lookup ts key) @ noTestsTag (lookup ts key) @
                          coverageTag paint (lookup ts key)
                     else ''.'' @ paint testColor (Key_Test key) @
                          elapsedTag paint (lookup ts key)) @ NL"
  have st: "summaryStore flags ts ActionSkip = ?st"
    by (rule summaryStore_Skip)
  have keys: "mset ?keys = mset (map fst ?st)"
    by (rule mset_OrderedKeys)
  have set_keys: "set ?keys = fst ` set ?st"
    by (rule set_OrderedKeys)
  have len: "length ?keys = length ?st"
    by (rule length_OrderedKeys)
  have empty: "(?st = []) = (?keys = [])"
    by (simp only: length_0_conv[symmetric] len)
  have line: "PrintSummary_line paint StatusSkip ?st key = ?line key" if "key \<in> set ?keys" for key
  proof -
    from that have "key \<in> fst ` set ?st" by (simp only: set_keys)
    with assms have "lookup ?st key = lookup ts key" by (rule lookup_filter)
    then show ?thesis
      by (simp add: PrintSummary_line_def Let_def Sprintf_pad_SKIP)
  qed
  have p1: "printSummary paint flags ts StatusSkip =
      (if ?st = [] then [] else PrintSummary paint ?st StatusSkip)"
    by (simp only: printSummary_Skip st)
  have p2: "PrintSummary paint ?st StatusSkip =
      (paint skipColor hrule @ '' '' @ paint skipColor ''SKIP'' @ '' '' @
       paint skipColor hrule @ NL) # map (PrintSummary_line paint StatusSkip ?st) ?keys"
    by (simp add: PrintSummary_def Let_def)
  have p3: "map (PrintSummary_line paint StatusSkip ?st) ?keys = map ?line ?keys"
    by (rule map_cong[OF refl]) (rule line)
  have out: "printSummary paint flags ts StatusSkip =
       (if ?keys = [] then []
        else (paint skipColor hrule @ '' '' @ paint skipColor ''SKIP'' @ '' '' @
              paint skipColor hrule @ NL) # map ?line ?keys)"
    by (simp only: p1 p2 p3 empty)
  have flagged: "\<forall>(k, es) \<in> set ts.
         list_ex (\<lambda>e. Action e = ''skip'') es \<and> IsPackageWithoutTest es \<longrightarrow>
           (V flags \<le> 3 \<longrightarrow> k \<notin> set ?keys) \<and> (4 \<le> V flags \<longrightarrow> k \<in> set ?keys)"
  proof (intro ballI, clarify, intro conjI impI)
    fix k es
    assume m: "(k, es) \<in> set ts" and f: "IsPackageWithoutTest es" and v: "V flags \<le> 3"
    show "k \<notin> set ?keys"
    proof
      assume "k \<in> set ?keys"
      then obtain es' where m': "(k, es') \<in> set ts" and q: "?Q (k, es')"
        by (auto simp: set_keys)
      from assms m m' have "es' = es" by (meson eq_key_imp_eq_value)
      with q v f show False by simp
    qed
  next
    fix k es
    assume m: "(k, es) \<in> set ts" and s: "list_ex (\<lambda>e. Action e = ''skip'') es"
      and v: "4 \<le> V flags"
    then have "(k, es) \<in> set ?st" by simp
    then show "k \<in> set ?keys"
      unfolding set_keys by (rule image_eqI[rotated]) simp
  qed
  show ?thesis
    by (rule exI[of _ ?keys], intro conjI) (rule keys, rule out, rule flagged)
qed

theorem skip_summary_no_tests_witness:
  "distinct (map fst store_q) \<and>
   list_ex (\<lambda>e. Action e = ''skip'') (lookup store_q (Key ''q'' '''')) \<and>
   IsPackageWithoutTest (lookup store_q (Key ''q'' '''')) \<and>
   V (flags_V 0) \<le> 3 \<and>
   printSummary plain (flags_V 0) store_q StatusSkip =
     [hrule @ '' SKIP '' @ hrule @ NL, ''  SKIP p.T'' @ NL] \<and>
   4 \<le> V (flags_V 4) \<and>
   printSummary plain (flags_V 4) store_q StatusSkip =
     [hrule @ '' SKIP '' @ hrule @ NL, ''  SKIP p.T'' @ NL, ''  SKIP q  [no tests]'' @ NL]"
proof -
  have d: "distinct (map fst store_q)"
    by (simp add: store_q_def)
  have f: "list_ex (\<lambda>e. Action e = ''skip'') (lookup store_q (Key ''q'' ''''))"
    "IsPackageWithoutTest (lookup store_q (Key ''q'' ''''))"
    by (simp_all add: store_q_def mkEvent_def lookup_def IsPackageWithoutTest_def eval_strings)
  have v: "V (flags_V 0) \<le> 3" "4 \<le> V (flags_V 4)"
    by (simp_all add: flags_V_def)
  show ?thesis
    using skip_summary_no_tests[OF d, of "flags_V 0" plain]
      skip_summary_no_tests[OF d, of "flags_V 4" plain]
    by (simp only: d f v printSummary_store_q_V0 printSummary_store_q_V4 simp_thms)
qed

end
